theory Spec2Isabelle
  imports Main
begin

section \<open>Characters and strings\<close>

text \<open>
  Python strings are sequences of Unicode code points.  The model uses HOL's
  \<open>string\<close>, whose characters are the code points U+0000 to U+00FF, so every
  statement below is about texts in that range.  The character classes are the
  restrictions of Python's Unicode classes to that range.
\<close>

definition is_space :: "char \<Rightarrow> bool" where
  \<comment> \<open>\<open>str.isspace\<close> on one character; also the class \<open>\s\<close> of \<open>re\<close>.\<close>
  "is_space c = (c \<in> set [CHR 0x09, CHR 0x0A, CHR 0x0B, CHR 0x0C, CHR 0x0D,
       CHR 0x1C, CHR 0x1D, CHR 0x1E, CHR 0x1F, CHR 0x20, CHR 0x85, CHR 0xA0])"

definition is_digit :: "char \<Rightarrow> bool" where
  \<comment> \<open>the class \<open>\d\<close>: decimal digits.\<close>
  "is_digit c = (c \<in> set ''0123456789'')"

definition ascii_upper :: string where
  "ascii_upper = ''ABCDEFGHIJKLMNOPQRSTUVWXYZ''"

definition ascii_lower :: string where
  "ascii_lower = ''abcdefghijklmnopqrstuvwxyz''"

definition latin_upper :: string where
  \<comment> \<open>U+00C0 to U+00DE without the multiplication sign U+00D7.\<close>
  "latin_upper = [CHR 0xC0, CHR 0xC1, CHR 0xC2, CHR 0xC3, CHR 0xC4, CHR 0xC5, CHR 0xC6,
     CHR 0xC7, CHR 0xC8, CHR 0xC9, CHR 0xCA, CHR 0xCB, CHR 0xCC, CHR 0xCD, CHR 0xCE,
     CHR 0xCF, CHR 0xD0, CHR 0xD1, CHR 0xD2, CHR 0xD3, CHR 0xD4, CHR 0xD5, CHR 0xD6,
     CHR 0xD8, CHR 0xD9, CHR 0xDA, CHR 0xDB, CHR 0xDC, CHR 0xDD, CHR 0xDE]"

definition latin_lower :: string where
  \<comment> \<open>U+00E0 to U+00FE without the division sign U+00F7.\<close>
  "latin_lower = [CHR 0xE0, CHR 0xE1, CHR 0xE2, CHR 0xE3, CHR 0xE4, CHR 0xE5, CHR 0xE6,
     CHR 0xE7, CHR 0xE8, CHR 0xE9, CHR 0xEA, CHR 0xEB, CHR 0xEC, CHR 0xED, CHR 0xEE,
     CHR 0xEF, CHR 0xF0, CHR 0xF1, CHR 0xF2, CHR 0xF3, CHR 0xF4, CHR 0xF5, CHR 0xF6,
     CHR 0xF8, CHR 0xF9, CHR 0xFA, CHR 0xFB, CHR 0xFC, CHR 0xFD, CHR 0xFE]"

definition is_word :: "char \<Rightarrow> bool" where
  \<comment> \<open>the class \<open>\w\<close>: \<open>str.isalnum\<close> or the underscore.\<close>
  "is_word c = (c \<in> set (ascii_lower @ ascii_upper @ ''0123456789_'' @ latin_upper @ latin_lower
       @ [CHR 0xAA, CHR 0xB2, CHR 0xB3, CHR 0xB5, CHR 0xB9, CHR 0xBA, CHR 0xBC, CHR 0xBD,
          CHR 0xBE, CHR 0xDF, CHR 0xFF]))"

definition lower_chr :: "char \<Rightarrow> char" where
  \<comment> \<open>\<open>str.lower\<close> on one character.\<close>
  "lower_chr c = (case map_of (zip (ascii_upper @ latin_upper) (ascii_lower @ latin_lower)) c of
       Some l \<Rightarrow> l | None \<Rightarrow> c)"

fun lower_bits :: "char \<Rightarrow> char" where
  \<comment> \<open>the same function on the bits of the code point (least significant first): a code
     point in U+0041..U+005A, or in U+00C0..U+00DE but U+00D7, gets bit 5 set, that is 32 added\<close>
  "lower_bits (Char b0 b1 b2 b3 b4 b5 b6 b7) =
     (if b6 \<and> \<not> b5 \<and>
         (if b7 then \<not> (b0 \<and> b1 \<and> b2 \<and> b4)
          else (b0 \<or> b1 \<or> b2 \<or> b3 \<or> b4) \<and> \<not> (b4 \<and> b3 \<and> (b2 \<or> (b1 \<and> b0))))
      then Char b0 b1 b2 b3 b4 True b6 b7
      else Char b0 b1 b2 b3 b4 b5 b6 b7)"

lemma lower_bits_all: "\<forall>c. lower_chr c = lower_bits c"
  by code_simp

lemma lower_chr_code [code]: "lower_chr c = lower_bits c"
  using lower_bits_all by simp

definition lower :: "string \<Rightarrow> string" where
  "lower s = map lower_chr s"

definition strip :: "string \<Rightarrow> string" where
  \<comment> \<open>\<open>str.strip()\<close>: leading and trailing whitespace removed.\<close>
  "strip s = rev (dropWhile is_space (rev (dropWhile is_space s)))"

definition slice :: "string \<Rightarrow> nat \<Rightarrow> nat \<Rightarrow> string" where
  \<comment> \<open>\<open>s[a:b]\<close> for non-negative \<open>a\<close>, \<open>b\<close>: clamped, empty when \<open>b \<le> a\<close>.\<close>
  "slice s a b = take (b - a) (drop a s)"

fun is_prefix :: "string \<Rightarrow> string \<Rightarrow> bool" where
  "is_prefix [] s = True"
| "is_prefix (m # ms) [] = False"
| "is_prefix (m # ms) (c # cs) = (m = c \<and> is_prefix ms cs)"

fun contains :: "string \<Rightarrow> string \<Rightarrow> bool" where
  \<comment> \<open>\<open>contains m s\<close> is Python's \<open>m in s\<close> on strings: \<open>m\<close> occurs in \<open>s\<close> as a substring.\<close>
  "contains m [] = (m = [])"
| "contains m (c # cs) = (is_prefix m (c # cs) \<or> contains m cs)"

section \<open>Regular expressions of Python's \<open>re\<close>\<close>

text \<open>
  The patterns of the program use literals, character classes, concatenation,
  alternation, greedy repetition, capturing and non-capturing groups and the word
  boundary.  \<open>re\<close> is a backtracking matcher: at a start position it explores the
  alternatives in priority order (the left branch of \<open>|\<close> first, one more
  iteration of a greedy repetition before stopping) and reports the first one that
  succeeds.  \<open>ends\<close> lists the outcomes in that order.
\<close>

datatype cclass =
    Lit char           \<comment> \<open>a literal character\<close>
  | LitI char          \<comment> \<open>a literal character under \<open>(?i)\<close>\<close>
  | OneOf string       \<comment> \<open>a set of characters, as \<open>[/-]\<close> or \<open>[A-Z]\<close>\<close>
  | LowerIn string     \<comment> \<open>a set under \<open>(?i)\<close>: the lower-cased character is in the lower-cased set\<close>
  | Except char        \<comment> \<open>\<open>[^c]\<close>\<close>
  | Space              \<comment> \<open>\<open>\s\<close>\<close>
  | Digit              \<comment> \<open>\<open>\d\<close>\<close>
  | Wordc              \<comment> \<open>\<open>\w\<close>\<close>
  | AnyChr             \<comment> \<open>\<open>.\<close>: any character but the newline\<close>
  | Either cclass cclass  \<comment> \<open>the union of two classes inside \<open>[...]\<close>\<close>
  | NoChr              \<comment> \<open>a literal code point above U+00FF: no character of a modelled text equals it\<close>

primrec cmatch :: "cclass \<Rightarrow> char \<Rightarrow> bool" where
  "cmatch (Lit c) x = (x = c)"
| "cmatch (LitI c) x = (lower_chr x = lower_chr c)"
| "cmatch (OneOf cs) x = (x \<in> set cs)"
| "cmatch (LowerIn cs) x = (lower_chr x \<in> set cs)"
| "cmatch (Except c) x = (x \<noteq> c)"
| "cmatch Space x = is_space x"
| "cmatch Digit x = is_digit x"
| "cmatch Wordc x = is_word x"
| "cmatch AnyChr x = (x \<noteq> CHR 0x0A)"
| "cmatch (Either a b) x = (cmatch a x \<or> cmatch b x)"
| "cmatch NoChr x = False"

datatype regex =
    Eps
  | Atom cclass
  | Seq regex regex
  | Alt regex regex
  | Star regex
  | Group nat regex
  | WordB

type_synonym caps = "(nat \<times> nat \<times> nat) list"
  \<comment> \<open>group number, start, end; the latest binding of a group first\<close>

type_synonym mstate = "nat \<times> caps"

function star_iter :: "(mstate \<Rightarrow> mstate list) \<Rightarrow> nat \<Rightarrow> mstate \<Rightarrow> mstate list" where
  \<comment> \<open>greedy repetition of a body \<open>f\<close> on a text of length \<open>n\<close>: iterate first, stop last;
     an iteration that consumes nothing ends the repetition\<close>
  "star_iter f n (i, c) =
     concat (map (star_iter f n) (filter (\<lambda>(j, c'). i < j \<and> j \<le> n) (f (i, c)))) @ [(i, c)]"
  by pat_completeness auto
termination
  by (relation "measure (\<lambda>(f, n, (i, c)). n - i)") auto

definition at_boundary :: "string \<Rightarrow> nat \<Rightarrow> bool" where
  \<comment> \<open>\<open>\b\<close>: exactly one of the characters before and at position \<open>i\<close> is a word character\<close>
  "at_boundary s i =
     ((0 < i \<and> i \<le> length s \<and> is_word (s ! (i - 1))) \<noteq> (i < length s \<and> is_word (s ! i)))"

fun ends :: "regex \<Rightarrow> string \<Rightarrow> mstate \<Rightarrow> mstate list" where
  "ends Eps s st = [st]"
| "ends (Atom p) s (i, c) = (if i < length s \<and> cmatch p (s ! i) then [(Suc i, c)] else [])"
| "ends (Seq r1 r2) s st = concat (map (ends r2 s) (ends r1 s st))"
| "ends (Alt r1 r2) s st = ends r1 s st @ ends r2 s st"
| "ends (Star r) s st = star_iter (ends r s) (length s) st"
| "ends (Group k r) s (i, c) = map (\<lambda>(j, c'). (j, (k, i, j) # c')) (ends r s (i, c))"
| "ends WordB s (i, c) = (if at_boundary s i then [(i, c)] else [])"

declare star_iter.simps [simp del]

lemma star_iter_ge: "(j, c') \<in> set (star_iter f n st) \<Longrightarrow> fst st \<le> j"
proof (induction f n st arbitrary: j c' rule: star_iter.induct)
  case (1 f n i c)
  from "1.prems" consider
      (stop) "(j, c') = (i, c)"
    | (iter) k d where "(k, d) \<in> set (f (i, c))" "i < k" "k \<le> n"
        "(j, c') \<in> set (star_iter f n (k, d))"
    by (auto simp: star_iter.simps [of f n i c])
  then show ?case
  proof cases
    case stop
    then show ?thesis by simp
  next
    case iter
    then have "fst (k, d) \<le> j"
      by (intro "1.IH") auto
    with iter show ?thesis by simp
  qed
qed

lemma ends_ge: "(j, c') \<in> set (ends r s (i, c)) \<Longrightarrow> i \<le> j"
proof (induction r arbitrary: i c j c')
  case (Seq r1 r2)
  from Seq.prems obtain k d where "(k, d) \<in> set (ends r1 s (i, c))"
    and "(j, c') \<in> set (ends r2 s (k, d))"
    by auto
  with Seq.IH show ?case by (meson le_trans)
next
  case (Star r)
  then show ?case using star_iter_ge [of j c' "ends r s" "length s" "(i, c)"] by simp
qed (auto split: if_splits)

section \<open>The functions of \<open>re\<close> the program calls\<close>

record rmatch =
  m_start :: nat
  m_end :: nat
  m_caps :: caps

function finditer_from :: "regex \<Rightarrow> string \<Rightarrow> nat \<Rightarrow> bool \<Rightarrow> rmatch list" where
  \<comment> \<open>the scan of \<open>finditer\<close>, \<open>findall\<close>, \<open>split\<close> (CPython 3.7 and later): the leftmost
     start from \<open>i\<close> on that has a match, its first outcome, then on from the end of that
     match; right after an empty match (\<open>adv\<close>) an empty match at the same place is refused\<close>
  "finditer_from r s i adv =
     (if length s < i then []
      else case find (\<lambda>(j, c). \<not> (adv \<and> j = i)) (ends r s (i, [])) of
             None \<Rightarrow> finditer_from r s (Suc i) False
           | Some (j, c) \<Rightarrow> \<lparr>m_start = i, m_end = j, m_caps = c\<rparr> # finditer_from r s j (j = i))"
  by pat_completeness auto
termination
proof (relation "measure (\<lambda>(r, s, i, adv). 2 * (Suc (length s) - i) + (if adv then 0 else 1))",
    goal_cases)
  case 1
  show ?case by simp
next
  case (2 r s i adv)
  then show ?case by auto
next
  case (3 r s i adv x j c)
  then have mem: "(j, c) \<in> set (ends r s (i, []))" and na: "\<not> (adv \<and> j = i)"
    by (auto simp: find_Some_iff in_set_conv_nth)
  from mem have "i \<le> j" by (rule ends_ge)
  with 3(1) na show ?case by (cases adv) auto
qed

declare finditer_from.simps [simp del]

definition finditer :: "regex \<Rightarrow> string \<Rightarrow> rmatch list" where
  "finditer r s = finditer_from r s 0 False"

definition search :: "regex \<Rightarrow> string \<Rightarrow> rmatch option" where
  \<comment> \<open>\<open>re.search\<close>: the first match of the scan, or \<open>None\<close>\<close>
  "search r s = (case finditer r s of [] \<Rightarrow> None | m # ms \<Rightarrow> Some m)"

definition group0 :: "string \<Rightarrow> rmatch \<Rightarrow> string" where
  \<comment> \<open>\<open>match.group(0)\<close>\<close>
  "group0 s m = slice s (m_start m) (m_end m)"

definition group_or_empty :: "string \<Rightarrow> rmatch \<Rightarrow> nat \<Rightarrow> string" where
  \<comment> \<open>what \<open>findall\<close> reports for group \<open>k\<close>: its text, or the empty string when the group
     took no part in the match\<close>
  "group_or_empty s m k = (case map_of (m_caps m) k of None \<Rightarrow> [] | Some (a, b) \<Rightarrow> slice s a b)"

primrec ngroups :: "regex \<Rightarrow> nat" where
  "ngroups Eps = 0"
| "ngroups (Atom p) = 0"
| "ngroups (Seq r1 r2) = max (ngroups r1) (ngroups r2)"
| "ngroups (Alt r1 r2) = max (ngroups r1) (ngroups r2)"
| "ngroups (Star r) = ngroups r"
| "ngroups (Group k r) = max k (ngroups r)"
| "ngroups WordB = 0"

datatype found = Strings "string list" | Tuples "string list list"

definition findall :: "regex \<Rightarrow> string \<Rightarrow> found" where
  \<comment> \<open>\<open>re.findall\<close>: whole matches for a pattern without groups, the group's text for a
     pattern with one group, a tuple of all groups otherwise\<close>
  "findall r s =
     (let ms = finditer r s; n = ngroups r in
      if n = 0 then Strings (map (group0 s) ms)
      else if n = 1 then Strings (map (\<lambda>m. group_or_empty s m 1) ms)
      else Tuples (map (\<lambda>m. map (group_or_empty s m) [1..<Suc n]) ms))"

fun pieces :: "string \<Rightarrow> nat \<Rightarrow> rmatch list \<Rightarrow> string list" where
  "pieces s p [] = [slice s p (length s)]"
| "pieces s p (m # ms) = slice s p (m_start m) # pieces s (m_end m) ms"

definition re_split :: "regex \<Rightarrow> string \<Rightarrow> string list" where
  \<comment> \<open>\<open>re.split\<close> for a pattern without groups: the text between the matches\<close>
  "re_split r s = pieces s 0 (finditer r s)"

subsection \<open>Writing patterns\<close>

definition chr :: "char \<Rightarrow> regex" where
  "chr c = Atom (Lit c)"

definition chri :: "char \<Rightarrow> regex" where
  \<comment> \<open>a literal under \<open>(?i)\<close>\<close>
  "chri c = Atom (LitI c)"

definition seqs :: "regex list \<Rightarrow> regex" where
  "seqs rs = foldr Seq rs Eps"

fun alts :: "regex list \<Rightarrow> regex" where
  "alts [] = Atom NoChr"
| "alts [r] = r"
| "alts (r # rs) = Alt r (alts rs)"

definition lit :: "string \<Rightarrow> regex" where
  "lit w = seqs (map chr w)"

definition liti :: "string \<Rightarrow> regex" where
  "liti w = seqs (map chri w)"

definition Plus :: "regex \<Rightarrow> regex" where
  \<comment> \<open>\<open>r+\<close>\<close>
  "Plus r = Seq r (Star r)"

definition Opt :: "regex \<Rightarrow> regex" where
  \<comment> \<open>\<open>r?\<close>\<close>
  "Opt r = Alt r Eps"

fun opts :: "regex \<Rightarrow> nat \<Rightarrow> regex" where
  "opts r 0 = Eps"
| "opts r (Suc k) = Opt (Seq r (opts r k))"

definition rep :: "regex \<Rightarrow> nat \<Rightarrow> nat \<Rightarrow> regex" where
  \<comment> \<open>\<open>r{m,n}\<close>\<close>
  "rep r m n = seqs (replicate m r @ [opts r (n - m)])"

definition spc :: regex where
  "spc = Atom Space"

definition dig :: regex where
  "dig = Atom Digit"

definition wrd :: regex where
  "wrd = Atom Wordc"

definition dot :: regex where
  "dot = Atom AnyChr"

definition no_char :: regex where
  "no_char = Atom NoChr"

section \<open>\<open>modules/nlp_engine.py\<close>: \<open>LegalNLPEngine\<close>\<close>

subsection \<open>The pattern tables of \<open>__init__\<close>\<close>

definition upper_cls :: regex where
  \<comment> \<open>\<open>[A-Z]\<close>\<close>
  "upper_cls = Atom (OneOf ascii_upper)"

definition lower_cls :: regex where
  \<comment> \<open>\<open>[a-z]\<close>\<close>
  "lower_cls = Atom (OneOf ascii_lower)"

definition letter_cls :: regex where
  \<comment> \<open>\<open>[A-Z]\<close> under \<open>(?i)\<close>: the lower-cased character is in \<open>a-z\<close>\<close>
  "letter_cls = Atom (LowerIn ascii_lower)"

definition org_pattern :: regex where
  \<comment> \<open>\<open>\b[A-Z][a-z]+(?:\s+[A-Z][a-z]+)*\s+(?:Ltd|Limited|Inc|Corp|Company|Pvt)\b\<close>\<close>
  "org_pattern = seqs [WordB, upper_cls, Plus lower_cls,
     Star (seqs [Plus spc, upper_cls, Plus lower_cls]), Plus spc,
     alts [lit ''Ltd'', lit ''Limited'', lit ''Inc'', lit ''Corp'', lit ''Company'', lit ''Pvt''],
     WordB]"

definition party_patterns :: "regex list" where
  \<comment> \<open>\<open>(?i)(party|company|firm|organization)\s+[A-Z][a-zA-Z\s&,\.]+\<close> and
     \<open>(?i)(hereinafter referred to as|referred to as)\s+"([^"]+)"\<close>\<close>
  "party_patterns =
    [seqs [Group 1 (alts [liti ''party'', liti ''company'', liti ''firm'', liti ''organization'']),
       Plus spc, letter_cls,
       Plus (Atom (Either (LowerIn ascii_lower) (Either Space (OneOf ''&,.''))))],
     seqs [Group 1 (alts [liti ''hereinafter referred to as'', liti ''referred to as'']),
       Plus spc, chr (CHR 0x22), Group 2 (Plus (Atom (Except (CHR 0x22)))), chr (CHR 0x22)]]"

definition amount_patterns :: "regex list" where
  \<comment> \<open>\<open>(?i)(rs\.?|inr|rupees)\s*[\d,]+(?:\.\d{2})?\<close>, then the pattern that starts with
     the three code points U+00E2 U+201A U+00B9 followed by \<open>\s*[\d,]+(?:\.\d{2})?\<close>, and
     \<open>(?i)\d+\s*(lakh|crore|thousand)\<close>\<close>
  "amount_patterns =
    [seqs [Group 1 (alts [Seq (liti ''rs'') (Opt (chr CHR ''.'')), liti ''inr'', liti ''rupees'']),
       Star spc, Plus (Atom (Either Digit (Lit CHR '',''))),
       Opt (seqs [chr CHR ''.'', rep dig 2 2])],
     seqs [chr (CHR 0xE2), no_char, chr (CHR 0xB9),
       Star spc, Plus (Atom (Either Digit (Lit CHR '',''))),
       Opt (seqs [chr CHR ''.'', rep dig 2 2])],
     seqs [Plus dig, Star spc, Group 1 (alts [liti ''lakh'', liti ''crore'', liti ''thousand''])]]"

definition date_patterns :: "regex list" where
  \<comment> \<open>\<open>\d{1,2}[/-]\d{1,2}[/-]\d{2,4}\<close> and
     \<open>(?i)(january|...|december)\s+\d{1,2},?\s+\d{4}\<close>\<close>
  "date_patterns =
    [seqs [rep dig 1 2, Atom (OneOf ''/-''), rep dig 1 2, Atom (OneOf ''/-''),
       rep dig 2 4],
     seqs [Group 1 (alts [liti ''january'', liti ''february'', liti ''march'', liti ''april'',
         liti ''may'', liti ''june'', liti ''july'', liti ''august'', liti ''september'',
         liti ''october'', liti ''november'', liti ''december'']),
       Plus spc, rep dig 1 2, Opt (chr CHR '',''), Plus spc, rep dig 4 4]]"

definition duration_patterns :: "regex list" where
  \<comment> \<open>\<open>(?i)\d+\s*(days?|weeks?|months?|years?)\<close> and
     \<open>(?i)(term of|period of)\s+\d+\s*(days?|months?|years?)\<close>\<close>
  "duration_patterns =
    [seqs [Plus dig, Star spc,
       Group 1 (alts [Seq (liti ''day'') (Opt (chri CHR ''s'')), Seq (liti ''week'') (Opt (chri CHR ''s'')),
         Seq (liti ''month'') (Opt (chri CHR ''s'')), Seq (liti ''year'') (Opt (chri CHR ''s''))])],
     seqs [Group 1 (alts [liti ''term of'', liti ''period of'']), Plus spc, Plus dig, Star spc,
       Group 2 (alts [Seq (liti ''day'') (Opt (chri CHR ''s'')),
         Seq (liti ''month'') (Opt (chri CHR ''s'')), Seq (liti ''year'') (Opt (chri CHR ''s''))])]]"

definition legal_patterns :: "(string \<times> regex list) list" where
  "legal_patterns = [(''party'', party_patterns), (''amount'', amount_patterns),
     (''date'', date_patterns), (''duration'', duration_patterns)]"

definition obligation_markers :: "string list" where
  "obligation_markers = [''shall'', ''must'', ''required to'', ''obligated to'', ''agrees to'']"

definition right_markers :: "string list" where
  "right_markers = [''may'', ''entitled to'', ''has the right to'', ''permitted to'']"

definition prohibition_markers :: "string list" where
  "prohibition_markers = [''shall not'', ''must not'', ''prohibited from'', ''restricted from'']"

subsection \<open>\<open>extract_entities\<close>\<close>

text \<open>
  The result is a dictionary with six fixed keys; \<open>custom\<close> is itself a dictionary, filled
  in the order of \<open>legal_patterns\<close>.  Every list the function stores is \<open>list(set(...))\<close>,
  whose order Python leaves open, so the model keeps the set.
\<close>

record entities =
  organizations :: "string set"
  persons :: "string list"
  dates :: "string list"
  money :: "string list"
  locations :: "string list"
  custom :: "(string \<times> string set) list"

definition extend_matches :: "string list \<Rightarrow> found \<Rightarrow> string list" where
  \<comment> \<open>one turn of the loop over the patterns: tuples are flattened and their empty
     members dropped, anything else is appended as it is\<close>
  "extend_matches matches fnd =
     (case fnd of
        Tuples (g # gs) \<Rightarrow> matches @ filter (\<lambda>m. m \<noteq> []) (concat (g # gs))
      | Tuples [] \<Rightarrow> matches
      | Strings xs \<Rightarrow> matches @ xs)"

definition pattern_matches :: "regex list \<Rightarrow> string \<Rightarrow> string list" where
  "pattern_matches patterns text = foldl (\<lambda>matches p. extend_matches matches (findall p text)) [] patterns"

definition found_strings :: "found \<Rightarrow> string list" where
  \<comment> \<open>the organization pattern has no group: \<open>findall\<close> gives strings\<close>
  "found_strings fnd = (case fnd of Strings xs \<Rightarrow> xs | Tuples gs \<Rightarrow> concat gs)"

definition extract_entities :: "string \<Rightarrow> entities" where
  "extract_entities text =
     \<lparr>organizations = set (found_strings (findall org_pattern text)),
      persons = [], dates = [], money = [], locations = [],
      custom = map (\<lambda>(entity_type, patterns). (entity_type, set (pattern_matches patterns text)))
                 legal_patterns\<rparr>"

subsection \<open>\<open>classify_clauses\<close> and \<open>detect_ambiguous_terms\<close>\<close>

definition sentence_end :: regex where
  \<comment> \<open>\<open>[.!?]+\<close>\<close>
  "sentence_end = Plus (Atom (OneOf ''.!?''))"

definition sentences :: "string \<Rightarrow> string list" where
  \<comment> \<open>\<open>[s.strip() for s in re.split(r'[.!?]+', text) if s.strip()]\<close>\<close>
  "sentences text = map strip (filter (\<lambda>s. strip s \<noteq> []) (re_split sentence_end text))"

definition any_in :: "string list \<Rightarrow> string \<Rightarrow> bool" where
  \<comment> \<open>\<open>any(marker in sent_lower for marker in markers)\<close>\<close>
  "any_in markers sent_lower = list_ex (\<lambda>marker. contains marker sent_lower) markers"

record classified =
  obligations :: "string list"
  rights :: "string list"
  prohibitions :: "string list"

definition classify_step :: "classified \<Rightarrow> string \<Rightarrow> classified" where
  \<comment> \<open>the body of the loop over the sentences\<close>
  "classify_step cl sent =
     (let sent_lower = lower sent in
      if any_in prohibition_markers sent_lower then cl\<lparr>prohibitions := prohibitions cl @ [sent]\<rparr>
      else if any_in obligation_markers sent_lower then cl\<lparr>obligations := obligations cl @ [sent]\<rparr>
      else if any_in right_markers sent_lower then cl\<lparr>rights := rights cl @ [sent]\<rparr>
      else cl)"

definition classify_clauses :: "string \<Rightarrow> classified" where
  "classify_clauses text =
     foldl classify_step \<lparr>obligations = [], rights = [], prohibitions = []\<rparr> (sentences text)"

text \<open>The class the loop gives a sentence: the first of the three tests that succeeds.\<close>

definition is_prohibition :: "string \<Rightarrow> bool" where
  "is_prohibition sent = any_in prohibition_markers (lower sent)"

definition is_obligation :: "string \<Rightarrow> bool" where
  "is_obligation sent = (\<not> is_prohibition sent \<and> any_in obligation_markers (lower sent))"

definition is_right :: "string \<Rightarrow> bool" where
  "is_right sent = (\<not> is_prohibition sent \<and> \<not> any_in obligation_markers (lower sent)
     \<and> any_in right_markers (lower sent))"

definition ambiguous_terms :: "string list" where
  "ambiguous_terms = [''reasonable'', ''appropriate'', ''as soon as possible'', ''promptly'',
     ''substantial'', ''material'', ''best efforts'', ''good faith'',
     ''approximately'', ''around'', ''may'', ''might'', ''could'']"

record ambiguity_flag =
  sentence :: string
  terms :: "string list"
  concern :: string

definition found_terms :: "string \<Rightarrow> string list" where
  \<comment> \<open>\<open>[term for term in ambiguous_terms if term in sent_lower]\<close>\<close>
  "found_terms sent = filter (\<lambda>term. contains term (lower sent)) ambiguous_terms"

definition flag_step :: "ambiguity_flag list \<Rightarrow> string \<Rightarrow> ambiguity_flag list" where
  "flag_step flagged sent =
     (if found_terms sent \<noteq> []
      then flagged @ [\<lparr>sentence = sent, terms = found_terms sent,
                       concern = ''Vague language may lead to disputes''\<rparr>]
      else flagged)"

definition detect_ambiguous_terms :: "string \<Rightarrow> ambiguity_flag list" where
  "detect_ambiguous_terms text = foldl flag_step [] (sentences text)"

section \<open>\<open>modules/risk_analyzer.py\<close>: \<open>RiskAnalyzer\<close>\<close>

subsection \<open>The risk patterns of \<open>__init__\<close>\<close>

definition ws :: regex where
  \<comment> \<open>\<open>\s+\<close>\<close>
  "ws = Plus spc"

definition any :: regex where
  \<comment> \<open>\<open>.*\<close>\<close>
  "any = Star dot"

definition high_patterns :: "(string \<times> regex list) list" where
  \<comment> \<open>the patterns, in order:
     \<open>(?i)unlimited\s+liability\<close>, \<open>(?i)without\s+any\s+limit\<close>, \<open>(?i)entire\s+liability\<close>;
     \<open>(?i)(party\s+[AB]|company|first\s+party)\s+may\s+terminate.*without\s+(notice|cause)\<close>, \<open>(?i)terminate\s+at\s+will\<close>, \<open>(?i)sole\s+discretion.*terminate\<close>;
     \<open>(?i)all\s+intellectual\s+property.*transferred\<close>, \<open>(?i)ownership.*vests.*exclusively\<close>, \<open>(?i)irrevocable.*assignment.*ip\<close>;
     \<open>(?i)non-compete.*\d+\s+(years|year)\<close>, \<open>(?i)not\s+engage.*competing.*business\<close>, \<open>(?i)restricted.*similar.*activity\<close>\<close>
  "high_patterns =
    [(''unlimited_liability'',
       [seqs [liti ''unlimited'', ws, liti ''liability''],
        seqs [liti ''without'', ws, liti ''any'', ws, liti ''limit''],
        seqs [liti ''entire'', ws, liti ''liability'']]),
     (''unilateral_termination'',
       [seqs [Group 1 (alts [seqs [liti ''party'', ws, Atom (LowerIn ''ab'')],
                  liti ''company'', seqs [liti ''first'', ws, liti ''party'']]),
          ws, liti ''may'', ws, liti ''terminate'', any, liti ''without'', ws,
          Group 2 (alts [liti ''notice'', liti ''cause''])],
        seqs [liti ''terminate'', ws, liti ''at'', ws, liti ''will''],
        seqs [liti ''sole'', ws, liti ''discretion'', any, liti ''terminate'']]),
     (''ip_transfer'',
       [seqs [liti ''all'', ws, liti ''intellectual'', ws, liti ''property'', any, liti ''transferred''],
        seqs [liti ''ownership'', any, liti ''vests'', any, liti ''exclusively''],
        seqs [liti ''irrevocable'', any, liti ''assignment'', any, liti ''ip'']]),
     (''non_compete_broad'',
       [seqs [liti ''non-compete'', any, Plus dig, ws, Group 1 (alts [liti ''years'', liti ''year''])],
        seqs [liti ''not'', ws, liti ''engage'', any, liti ''competing'', any, liti ''business''],
        seqs [liti ''restricted'', any, liti ''similar'', any, liti ''activity'']])]"

definition medium_patterns :: "(string \<times> regex list) list" where
  \<comment> \<open>the patterns, in order:
     \<open>(?i)automatically\s+renewed?\<close>, \<open>(?i)auto-renewal\<close>, \<open>(?i)unless.*notice.*\d+\s+days.*renew\<close>;
     \<open>(?i)penalty.*\<close> then the code points U+00E2 U+201A, an optional U+00B9 and \<open>\d+\<close>; \<open>(?i)liquidated\s+damages\<close>, \<open>(?i)shall\s+pay.*breach\<close>;
     \<open>(?i)exclusive\s+jurisdiction\<close>, \<open>(?i)courts?\s+at\s+\w+\s+only\<close>, \<open>(?i)subject\s+to.*jurisdiction.*\w+\<close>;
     \<open>(?i)indemnify.*hold\s+harmless\<close>, \<open>(?i)defend.*against\s+any\s+claims?\<close>, \<open>(?i)indemnification.*losses\<close>\<close>
  "medium_patterns =
    [(''auto_renewal'',
       [seqs [liti ''automatically'', ws, liti ''renewe'', Opt (chri CHR ''d'')],
        liti ''auto-renewal'',
        seqs [liti ''unless'', any, liti ''notice'', any, Plus dig, ws, liti ''days'', any, liti ''renew'']]),
     (''penalty_clause'',
       [seqs [liti ''penalty'', any, chri (CHR 0xE2), no_char, Opt (chri (CHR 0xB9)), Plus dig],
        seqs [liti ''liquidated'', ws, liti ''damages''],
        seqs [liti ''shall'', ws, liti ''pay'', any, liti ''breach'']]),
     (''jurisdiction_limited'',
       [seqs [liti ''exclusive'', ws, liti ''jurisdiction''],
        seqs [liti ''court'', Opt (chri CHR ''s''), ws, liti ''at'', ws, Plus wrd, ws, liti ''only''],
        seqs [liti ''subject'', ws, liti ''to'', any, liti ''jurisdiction'', any, Plus wrd]]),
     (''indemnity_broad'',
       [seqs [liti ''indemnify'', any, liti ''hold'', ws, liti ''harmless''],
        seqs [liti ''defend'', any, liti ''against'', ws, liti ''any'', ws, liti ''claim'',
          Opt (chri CHR ''s'')],
        seqs [liti ''indemnification'', any, liti ''losses'']])]"

definition low_patterns :: "(string \<times> regex list) list" where
  \<comment> \<open>the patterns, in order:
     \<open>(?i)\d+\s+days?\s+notice\<close>, \<open>(?i)notice\s+period.*\d+\<close>;
     \<open>(?i)confidential\s+information\<close>, \<open>(?i)non-disclosure\<close>\<close>
  "low_patterns =
    [(''notice_period'',
       [seqs [Plus dig, ws, liti ''day'', Opt (chri CHR ''s''), ws, liti ''notice''],
        seqs [liti ''notice'', ws, liti ''period'', any, Plus dig]]),
     (''confidentiality'',
       [seqs [liti ''confidential'', ws, liti ''information''],
        liti ''non-disclosure''])]"

subsection \<open>\<open>analyze_contract\<close>\<close>

record risk_finding =
  category :: string
  matched_text :: string
  context_text :: string
  position :: nat

record risk_report =
  high :: "risk_finding list"
  medium :: "risk_finding list"
  low :: "risk_finding list"
  composite_score :: int
  level :: string
  recommendation :: string

definition make_finding :: "string \<Rightarrow> string \<Rightarrow> rmatch \<Rightarrow> risk_finding" where
  \<comment> \<open>the body of the loop over the matches of one pattern\<close>
  "make_finding text cat m =
     (let start_pos = nat (max 0 (int (m_start m) - 50));
          end_pos = nat (min (int (length text)) (int (m_end m) + 50))
      in \<lparr>category = cat, matched_text = group0 text m,
          context_text = slice text start_pos end_pos,
          position = m_start m\<rparr>)"

definition tier_findings :: "(string \<times> regex list) list \<Rightarrow> string \<Rightarrow> risk_finding list" where
  \<comment> \<open>the loops over the categories of one risk level, their patterns and the matches:
     the findings appended to that level's list, in this order\<close>
  "tier_findings categories text =
     concat (map (\<lambda>(cat, patterns).
       concat (map (\<lambda>pattern. map (make_finding text cat) (finditer pattern text)) patterns))
       categories)"

definition analyze_contract :: "string \<Rightarrow> 'e \<Rightarrow> risk_report" where
  "analyze_contract text ents =
     (let hi = tier_findings high_patterns text;
          med = tier_findings medium_patterns text;
          lo = tier_findings low_patterns text;
          total_score = int (length hi) * 10 + int (length med) * 5 + int (length lo) * 1;
          score = min 100 total_score
      in \<lparr>high = hi, medium = med, low = lo, composite_score = score,
          level = (if score > 60 then ''HIGH RISK''
                   else if score > 30 then ''MEDIUM RISK'' else ''LOW RISK''),
          recommendation = (if score > 60 then ''Immediate legal review recommended''
                   else if score > 30 then ''Review and negotiate key clauses''
                   else ''Standard contract with minor concerns'')\<rparr>)"

subsection \<open>\<open>check_indian_compliance\<close>\<close>

definition essential_elements :: "(string \<times> regex) list" where
  \<comment> \<open>the patterns, in order:
     \<open>(?i)(consideration|valuable\s+consideration|monetary|payment)\<close>;
     \<open>(?i)(consent|agree|acceptance|mutual\s+understanding)\<close>;
     \<open>(?i)(major|age\s+of\s+majority|sound\s+mind|competent)\<close>;
     \<open>(?i)(lawful\s+purpose|legal\s+object|legitimate)\<close>\<close>
  "essential_elements =
    [(''consideration'', Group 1 (alts [liti ''consideration'',
        seqs [liti ''valuable'', ws, liti ''consideration''], liti ''monetary'', liti ''payment''])),
     (''free_consent'', Group 1 (alts [liti ''consent'', liti ''agree'', liti ''acceptance'',
        seqs [liti ''mutual'', ws, liti ''understanding'']])),
     (''competent_parties'', Group 1 (alts [liti ''major'',
        seqs [liti ''age'', ws, liti ''of'', ws, liti ''majority''],
        seqs [liti ''sound'', ws, liti ''mind''], liti ''competent''])),
     (''lawful_object'', Group 1 (alts [seqs [liti ''lawful'', ws, liti ''purpose''],
        seqs [liti ''legal'', ws, liti ''object''], liti ''legitimate'']))]"

record compliance_result =
  element :: string
  status :: string
  severity :: string
  note_text :: "string option"

definition check_element :: "string \<Rightarrow> string \<times> regex \<Rightarrow> compliance_result" where
  \<comment> \<open>the body of the loop over the essential elements\<close>
  "check_element text = (\<lambda>(elem, pattern).
     if search pattern text = None
     then \<lparr>element = elem, status = ''MISSING'', severity = ''high'',
           note_text = Some (''Contract should explicitly mention '' @ elem @
                        '' as per Section 10, Indian Contract Act'')\<rparr>
     else \<lparr>element = elem, status = ''PRESENT'', severity = ''none'', note_text = None\<rparr>)"

definition check_indian_compliance :: "string \<Rightarrow> string \<Rightarrow> compliance_result list" where
  "check_indian_compliance text contract_type = map (check_element text) essential_elements"

section \<open>Properties of the risk scorer and the compliance checker\<close>

text \<open>
  Claim C1.  For every text, the composite score of the report of \<open>analyze_contract\<close> is
  the minimum of 100 and ten times the number of high findings plus five times the number
  of medium findings plus the number of low findings, and it lies between 0 and 100.
\<close>

theorem C1_composite_score:
  "composite_score (analyze_contract text ents) =
     min 100 (10 * int (length (high (analyze_contract text ents)))
            + 5 * int (length (medium (analyze_contract text ents)))
            + 1 * int (length (low (analyze_contract text ents))))
   \<and> 0 \<le> composite_score (analyze_contract text ents)
   \<and> composite_score (analyze_contract text ents) \<le> 100"
proof -
  let ?r = "analyze_contract text ents"
  have score: "composite_score ?r =
      min 100 (int (length (high ?r)) * 10 + int (length (medium ?r)) * 5 + int (length (low ?r)) * 1)"
    by (simp add: analyze_contract_def Let_def)
  have nonneg: "0 \<le> int (length (high ?r)) * 10 + int (length (medium ?r)) * 5 + int (length (low ?r)) * 1"
    by simp
  from score nonneg show ?thesis
    by (simp add: mult.commute)
qed

text \<open>
  Claim C2.  For every text, the level and the recommendation of the report are fixed by
  the composite score alone, with strict thresholds: above 60 the report says HIGH RISK and
  asks for immediate legal review, above 30 and up to 60 it says MEDIUM RISK, and up to 30
  it says LOW RISK.  The thresholds are the numerals of the conditions, so 61 is high,
  60 is medium and 30 is low.
\<close>

theorem C2_level_by_score:
  "level (analyze_contract text ents) =
     (if composite_score (analyze_contract text ents) > 60 then ''HIGH RISK''
      else if composite_score (analyze_contract text ents) > 30 then ''MEDIUM RISK''
      else ''LOW RISK'')
   \<and> recommendation (analyze_contract text ents) =
     (if composite_score (analyze_contract text ents) > 60 then ''Immediate legal review recommended''
      else if composite_score (analyze_contract text ents) > 30 then ''Review and negotiate key clauses''
      else ''Standard contract with minor concerns'')"
  by (simp add: analyze_contract_def Let_def)

text \<open>
  Claim C6.  For every text and contract type, \<open>check_indian_compliance\<close> returns four
  entries, for consideration, free_consent, competent_parties and lawful_object in this
  order.  The entry of an element whose pattern is not found in the text has status
  MISSING, severity high and a note that is not empty; the entry of an element whose
  pattern is found has status PRESENT, severity none and no note.
\<close>

theorem C6_compliance_entries:
  "map element (check_indian_compliance text contract_type) =
     [''consideration'', ''free_consent'', ''competent_parties'', ''lawful_object'']
   \<and> list_all2 (\<lambda>r (elem, pattern).
        element r = elem \<and>
        (if search pattern text = None
         then status r = ''MISSING'' \<and> severity r = ''high''
              \<and> note_text r \<noteq> None \<and> note_text r \<noteq> Some []
         else status r = ''PRESENT'' \<and> severity r = ''none'' \<and> note_text r = None))
      (check_indian_compliance text contract_type) essential_elements"
proof
  show "map element (check_indian_compliance text contract_type) =
     [''consideration'', ''free_consent'', ''competent_parties'', ''lawful_object'']"
    by (simp add: check_indian_compliance_def check_element_def essential_elements_def)
next
  show "list_all2 (\<lambda>r (elem, pattern).
        element r = elem \<and>
        (if search pattern text = None
         then status r = ''MISSING'' \<and> severity r = ''high''
              \<and> note_text r \<noteq> None \<and> note_text r \<noteq> Some []
         else status r = ''PRESENT'' \<and> severity r = ''none'' \<and> note_text r = None))
      (check_indian_compliance text contract_type) essential_elements"
    unfolding check_indian_compliance_def list_all2_map1
    by (rule list_all2_refl) (simp add: check_element_def split: prod.splits)
qed

text \<open>
  Claim C7.  The report of \<open>analyze_contract\<close> does not depend on its entities argument,
  and the result of \<open>check_indian_compliance\<close> does not depend on its contract type.
\<close>

theorem C7_unused_arguments:
  "analyze_contract text ents1 = analyze_contract text ents2
   \<and> check_indian_compliance text contract_type1 = check_indian_compliance text contract_type2"
  by (simp add: analyze_contract_def check_indian_compliance_def)

section \<open>Properties of the entity extractor\<close>

text \<open>
  Claim C10.  For every text, the keys persons, dates, money and locations of the result
  of \<open>extract_entities\<close> hold empty lists, and the categories party, amount, date and
  duration are the keys of the dictionary under custom, in this order.
\<close>

theorem C10_fixed_keys:
  "persons (extract_entities text) = []
   \<and> dates (extract_entities text) = []
   \<and> money (extract_entities text) = []
   \<and> locations (extract_entities text) = []
   \<and> map fst (custom (extract_entities text)) = [''party'', ''amount'', ''date'', ''duration'']"
  by (simp add: extract_entities_def legal_patterns_def)

section \<open>Properties of the clause classifier and the ambiguity detector\<close>

lemma classify_step_cases:
  "classify_step cl sent =
     (if is_prohibition sent then cl\<lparr>prohibitions := prohibitions cl @ [sent]\<rparr>
      else if is_obligation sent then cl\<lparr>obligations := obligations cl @ [sent]\<rparr>
      else if is_right sent then cl\<lparr>rights := rights cl @ [sent]\<rparr>
      else cl)"
  by (simp add: classify_step_def Let_def is_prohibition_def is_obligation_def is_right_def)

lemma class_exclusive:
  "\<not> (is_prohibition sent \<and> is_obligation sent)"
  "\<not> (is_prohibition sent \<and> is_right sent)"
  "\<not> (is_obligation sent \<and> is_right sent)"
  by (auto simp: is_obligation_def is_right_def)

lemma classify_foldl:
  "foldl classify_step cl xs =
     \<lparr>obligations = obligations cl @ filter is_obligation xs,
      rights = rights cl @ filter is_right xs,
      prohibitions = prohibitions cl @ filter is_prohibition xs\<rparr>"
proof (induction xs arbitrary: cl)
  case Nil
  show ?case by simp
next
  case (Cons x xs)
  have "foldl classify_step cl (x # xs) = foldl classify_step (classify_step cl x) xs"
    by simp
  also have "\<dots> =
     \<lparr>obligations = obligations (classify_step cl x) @ filter is_obligation xs,
      rights = rights (classify_step cl x) @ filter is_right xs,
      prohibitions = prohibitions (classify_step cl x) @ filter is_prohibition xs\<rparr>"
    by (rule Cons.IH)
  also have "\<dots> =
     \<lparr>obligations = obligations cl @ filter is_obligation (x # xs),
      rights = rights cl @ filter is_right (x # xs),
      prohibitions = prohibitions cl @ filter is_prohibition (x # xs)\<rparr>"
    using class_exclusive [of x] by (auto simp: classify_step_cases)
  finally show ?case .
qed

lemma flag_foldl:
  "foldl flag_step flagged xs =
     flagged @ map (\<lambda>sent. \<lparr>sentence = sent, terms = found_terms sent,
                              concern = ''Vague language may lead to disputes''\<rparr>)
                   (filter (\<lambda>sent. found_terms sent \<noteq> []) xs)"
proof (induction xs arbitrary: flagged)
  case Nil
  show ?case by simp
next
  case (Cons x xs)
  show ?case
    unfolding foldl_Cons Cons.IH
    by (simp add: flag_step_def)
qed

lemma found_terms_nonempty:
  "(found_terms sent \<noteq> []) = list_ex (\<lambda>term. contains term (lower sent)) ambiguous_terms"
  by (simp add: found_terms_def filter_empty_conv list_ex_iff)

text \<open>
  Claim C9.  For every text, \<open>detect_ambiguous_terms\<close> gives one flag for each sentence
  of the split (in order, repeated sentences included) whose lower-cased text contains at
  least one of the vague terms as a substring, and no flag for any other sentence; the flag
  lists all the vague terms the sentence contains and carries the fixed concern.
\<close>

theorem C9_one_flag_per_vague_sentence:
  "map sentence (detect_ambiguous_terms text) =
     filter (\<lambda>sent. list_ex (\<lambda>term. contains term (lower sent)) ambiguous_terms) (sentences text)
   \<and> map terms (detect_ambiguous_terms text) =
     map (\<lambda>sent. filter (\<lambda>term. contains term (lower sent)) ambiguous_terms)
       (filter (\<lambda>sent. list_ex (\<lambda>term. contains term (lower sent)) ambiguous_terms) (sentences text))
   \<and> map concern (detect_ambiguous_terms text) =
     map (\<lambda>sent. ''Vague language may lead to disputes'')
       (filter (\<lambda>sent. list_ex (\<lambda>term. contains term (lower sent)) ambiguous_terms) (sentences text))"
proof -
  have flags: "detect_ambiguous_terms text =
      map (\<lambda>sent. \<lparr>sentence = sent, terms = found_terms sent,
                       concern = ''Vague language may lead to disputes''\<rparr>)
        (filter (\<lambda>sent. list_ex (\<lambda>term. contains term (lower sent)) ambiguous_terms) (sentences text))"
    by (simp add: detect_ambiguous_terms_def flag_foldl found_terms_nonempty)
  have terms: "found_terms = (\<lambda>sent. filter (\<lambda>term. contains term (lower sent)) ambiguous_terms)"
    by (rule ext) (simp add: found_terms_def)
  show ?thesis
    unfolding flags terms by (simp add: comp_def)
qed


end
